theory Spec2Isabelle
  imports Main "HOL-Library.AList"
begin

section \<open>Strings\<close>

text \<open>
  A Python \<open>str\<close> is modelled as a \<open>string\<close> (a list of characters). The functions
  below are the string methods and regular-expression substitutions that
  \<open>main.py\<close> calls.
\<close>

definition in_range :: "char \<Rightarrow> char \<Rightarrow> char \<Rightarrow> bool" where
  "in_range lo hi c = ((of_char lo :: nat) \<le> of_char c \<and> (of_char c :: nat) \<le> of_char hi)"

text \<open>The character class \<open>[a-zA-Z0-9_]\<close> of the regular expression in line 32.\<close>

definition is_word_char :: "char \<Rightarrow> bool" where
  "is_word_char c =
     (in_range CHR ''a'' CHR ''z'' c \<or> in_range CHR ''A'' CHR ''Z'' c
      \<or> in_range CHR ''0'' CHR ''9'' c \<or> c = CHR ''_'')"

text \<open>
  \<open>s.lower()\<close> on the letters \<open>A\<close> to \<open>Z\<close>. Column names reach the reconciler
  after sanitization, so they consist of characters of the class above.
\<close>

definition lower_char :: "char \<Rightarrow> char" where
  "lower_char c =
     (case map_of (zip ''ABCDEFGHIJKLMNOPQRSTUVWXYZ'' ''abcdefghijklmnopqrstuvwxyz'') c of
        Some l \<Rightarrow> l
      | None \<Rightarrow> c)"

definition lower :: "string \<Rightarrow> string" where
  "lower s = map lower_char s"

text \<open>\<open>s.replace(c, r)\<close> for a pattern \<open>c\<close> of one character.\<close>

definition replace_char :: "char \<Rightarrow> string \<Rightarrow> string \<Rightarrow> string" where
  "replace_char c r s = concat (map (\<lambda>x. if x = c then r else [x]) s)"

text \<open>\<open>re.sub(r'[^a-zA-Z0-9_]', '_', s)\<close>: every character outside the class becomes \<open>_\<close>.\<close>

definition sub_non_word :: "string \<Rightarrow> string" where
  "sub_non_word s = map (\<lambda>c. if is_word_char c then c else CHR ''_'') s"

text \<open>\<open>re.sub(r'_+', '_', s)\<close>: every maximal run of underscores becomes one underscore.\<close>

fun sub_underscores :: "string \<Rightarrow> string" where
  "sub_underscores (a # b # cs) =
     (if a = CHR ''_'' \<and> b = CHR ''_'' then sub_underscores (b # cs)
      else a # sub_underscores (b # cs))"
| "sub_underscores cs = cs"

text \<open>\<open>s.strip('_')\<close>: leading and trailing underscores are removed.\<close>

definition strip_underscores :: "string \<Rightarrow> string" where
  "strip_underscores s =
     rev (dropWhile (\<lambda>c. c = CHR ''_'') (rev (dropWhile (\<lambda>c. c = CHR ''_'') s)))"

text \<open>\<open>sep.join(xs)\<close>.\<close>

fun join :: "string \<Rightarrow> string list \<Rightarrow> string" where
  "join sep [] = []"
| "join sep [x] = x"
| "join sep (x # y # ys) = x @ sep @ join sep (y # ys)"

text \<open>\<open>s.split(c)\<close> for a separator of one character; the result is never empty.\<close>

fun split_on :: "char \<Rightarrow> string \<Rightarrow> string list" where
  "split_on c [] = [[]]"
| "split_on c (x # xs) =
     (if x = c then [] # split_on c xs
      else (case split_on c xs of [] \<Rightarrow> [[x]] | w # ws \<Rightarrow> (x # w) # ws))"

text \<open>\<open>str(n)\<close> for a non-negative and for an arbitrary Python integer.\<close>

definition digit_char :: "nat \<Rightarrow> char" where
  "digit_char d =
     (if d = 0 then CHR ''0'' else if d = 1 then CHR ''1'' else if d = 2 then CHR ''2''
      else if d = 3 then CHR ''3'' else if d = 4 then CHR ''4'' else if d = 5 then CHR ''5''
      else if d = 6 then CHR ''6'' else if d = 7 then CHR ''7'' else if d = 8 then CHR ''8''
      else CHR ''9'')"

fun str_nat :: "nat \<Rightarrow> string" where
  "str_nat n = (if n < 10 then [digit_char n] else str_nat (n div 10) @ [digit_char (n mod 10)])"

declare str_nat.simps [simp del]

definition str_int :: "int \<Rightarrow> string" where
  "str_int i = (if i < 0 then CHR ''-'' # str_nat (nat (- i)) else str_nat (nat i))"

section \<open>Name sanitizer\<close>

text \<open>\<open>sanitize_column_name\<close>, lines 22 to 36, one binding per assignment.\<close>

definition sanitize_column_name :: "string \<Rightarrow> string" where
  "sanitize_column_name name0 =
     (let name1 = replace_char CHR ''%'' ''percent'' name0;
          name2 = replace_char CHR ''/'' ''_per_'' name1;
          name3 = sub_non_word name2;
          name4 = sub_underscores name3;
          name5 = strip_underscores name4
      in name5)"


text \<open>
  The predicate below recognises a string with two adjacent underscores; it is used to
  state what line 33 achieves.
\<close>

fun has_double :: "string \<Rightarrow> bool" where
  "has_double (a # b # cs) = ((a = CHR ''_'' \<and> b = CHR ''_'') \<or> has_double (b # cs))"
| "has_double cs = False"

section \<open>JSON values and flat records\<close>

text \<open>
  \<open>json.loads\<close> yields \<open>None\<close>, \<open>bool\<close>, \<open>int\<close>, \<open>float\<close> and \<open>str\<close> objects, lists and
  dicts. A float is carried by its decimal representation, which is all the program
  ever asks of it. \<open>STime\<close> is a \<open>datetime\<close>; it does not come from JSON and occurs only
  as a cell of a data frame. A dict is an association list in insertion order; the
  dicts built by \<open>json.loads\<close> have pairwise distinct keys.
\<close>

datatype scalar = SNull | SBool bool | SInt int | SFloat string | SStr string | STime int

datatype json = Scalar scalar | Array "json list" | Object "(string \<times> json) list"

text \<open>\<open>isinstance(value, dict)\<close>.\<close>

fun is_dict :: "json \<Rightarrow> bool" where
  "is_dict (Object kvs) = True"
| "is_dict v = False"

text \<open>
  \<open>str(value)\<close> as used in line 59. On the scalars of JSON it is written out; on a list
  or a dict it is Python's own rendering of containers (with quoting of the strings
  inside), which is taken as the parameter \<open>repr\<close>.
\<close>

fun py_str :: "(json \<Rightarrow> string) \<Rightarrow> json \<Rightarrow> string" where
  "py_str repr (Scalar SNull) = ''None''"
| "py_str repr (Scalar (SBool b)) = (if b then ''True'' else ''False'')"
| "py_str repr (Scalar (SInt i)) = str_int i"
| "py_str repr (Scalar (SFloat r)) = r"
| "py_str repr (Scalar (SStr s)) = s"
| "py_str repr v = repr v"

text \<open>
  A flat record is the dict \<open>flat_dict\<close>: \<open>flat_dict[k] = v\<close> is \<open>AList.update k v\<close> (an
  existing key keeps its position, a new key goes to the end) and
  \<open>flat_dict.update(other)\<close> stores the pairs of \<open>other\<close> in their order.
\<close>

type_synonym flat = "(string \<times> scalar) list"

definition dict_update :: "flat \<Rightarrow> flat \<Rightarrow> flat" where
  "dict_update d other = fold (\<lambda>(k, v) acc. AList.update k v acc) other d"

section \<open>Flattener\<close>

text \<open>Line 46: \<open>new_key = f"{parent_key}{sep}{key}" if parent_key else key\<close>.\<close>

definition new_key_of :: "string \<Rightarrow> string \<Rightarrow> string \<Rightarrow> string" where
  "new_key_of parent_key sep key = (if parent_key \<noteq> [] then parent_key @ sep @ key else key)"

text \<open>
  \<open>flatten_json\<close>, lines 38 to 67. \<open>flatten_items\<close> is the loop over \<open>nested_json.items()\<close>
  with \<open>flat_dict\<close> as its state, \<open>flatten_elems\<close> the loop over \<open>enumerate(value)\<close> of
  line 56. On a value that is not a dict, \<open>.items()\<close> raises; the handler of line 65
  catches that and the function returns the \<open>flat_dict\<close> built so far, which is empty.
\<close>

fun flatten_json :: "(json \<Rightarrow> string) \<Rightarrow> json \<Rightarrow> string \<Rightarrow> string \<Rightarrow> flat"
and flatten_items ::
  "(json \<Rightarrow> string) \<Rightarrow> (string \<times> json) list \<Rightarrow> string \<Rightarrow> string \<Rightarrow> flat \<Rightarrow> flat"
and flatten_elems ::
  "(json \<Rightarrow> string) \<Rightarrow> json list \<Rightarrow> nat \<Rightarrow> string \<Rightarrow> string \<Rightarrow> flat \<Rightarrow> flat"
where
  "flatten_json repr (Object kvs) parent_key sep = flatten_items repr kvs parent_key sep []"
| "flatten_json repr (Array xs) parent_key sep = []"
| "flatten_json repr (Scalar s) parent_key sep = []"
| "flatten_items repr [] parent_key sep flat_dict = flat_dict"
| "flatten_items repr ((key, Object kvs) # rest) parent_key sep flat_dict =
     flatten_items repr rest parent_key sep
       (dict_update flat_dict
          (flatten_json repr (Object kvs) (new_key_of parent_key sep key) sep))"
| "flatten_items repr ((key, Array items) # rest) parent_key sep flat_dict =
     flatten_items repr rest parent_key sep
       (if list_all is_dict items
        then flatten_elems repr items 0 (new_key_of parent_key sep key) sep flat_dict
        else AList.update (new_key_of parent_key sep key)
               (SStr (join '', '' (map (py_str repr) items))) flat_dict)"
| "flatten_items repr ((key, Scalar s) # rest) parent_key sep flat_dict =
     flatten_items repr rest parent_key sep
       (AList.update (new_key_of parent_key sep key) s flat_dict)"
| "flatten_elems repr [] i new_key sep flat_dict = flat_dict"
| "flatten_elems repr (item # items) i new_key sep flat_dict =
     flatten_elems repr items (Suc i) new_key sep
       (dict_update flat_dict (flatten_json repr item (new_key @ sep @ str_nat i) sep))"

section \<open>Top-level dispatch\<close>

text \<open>Line 176: \<open>isinstance(value, list) and all(isinstance(item, dict) for item in value)\<close>.\<close>

fun is_list_of_dicts :: "json \<Rightarrow> bool" where
  "is_list_of_dicts (Array items) = list_all is_dict items"
| "is_list_of_dicts v = False"

fun array_items :: "json \<Rightarrow> json list" where
  "array_items (Array items) = items"
| "array_items v = []"

text \<open>The list comprehension of lines 177 and 179.\<close>

definition flatten_each :: "(json \<Rightarrow> string) \<Rightarrow> json list \<Rightarrow> flat list" where
  "flatten_each repr items = map (\<lambda>item. flatten_json repr item [] ''_'') items"

text \<open>The loop of lines 175 to 177, with \<open>flattened_data\<close> as its state.\<close>

fun dispatch_loop :: "(json \<Rightarrow> string) \<Rightarrow> (string \<times> json) list \<Rightarrow> flat list \<Rightarrow> flat list" where
  "dispatch_loop repr [] flattened = flattened"
| "dispatch_loop repr ((key, value) # rest) flattened =
     dispatch_loop repr rest
       (if is_list_of_dicts value then flatten_each repr (array_items value) else flattened)"

text \<open>
  Lines 173 to 179. When the document is neither a dict nor a list, no branch binds
  \<open>flattened_data\<close> and the comparison of line 182 raises; that is \<open>None\<close>.
\<close>

fun flattened_data :: "(json \<Rightarrow> string) \<Rightarrow> json \<Rightarrow> flat list option" where
  "flattened_data repr (Object kvs) =
     Some (dispatch_loop repr kvs [flatten_json repr (Object kvs) [] ''_''])"
| "flattened_data repr (Array xs) = Some (flatten_each repr xs)"
| "flattened_data repr (Scalar s) = None"

section \<open>Table name\<close>

text \<open>\<open>os.path.basename\<close>: what follows the last slash.\<close>

definition basename :: "string \<Rightarrow> string" where
  "basename p = rev (takeWhile (\<lambda>c. c \<noteq> CHR ''/'') (rev p))"

text \<open>Lines 196 to 198. \<open>xs[:-2]\<close> is \<open>take (length xs - 2) xs\<close>, empty when \<open>xs\<close> is short.\<close>

definition table_name :: "string \<Rightarrow> string" where
  "table_name file_name =
     (let source_file_name = basename file_name;
          base_name = hd (split_on CHR ''.'' source_file_name);
          segments = split_on CHR ''_'' base_name
      in join ''_'' (take (length segments - 2) segments))"

text \<open>
  The derivation in the words of the specification: the extension is what starts at the
  last dot of the base filename.
\<close>

definition strip_extension :: "string \<Rightarrow> string" where
  "strip_extension s =
     (if CHR ''.'' \<in> set s then rev (tl (dropWhile (\<lambda>c. c \<noteq> CHR ''.'') (rev s))) else s)"

definition spec_table_name :: "string \<Rightarrow> string" where
  "spec_table_name file_name =
     (let segments = split_on CHR ''_'' (strip_extension (basename file_name))
      in join ''_'' (butlast (butlast segments)))"

section \<open>Data frames\<close>

text \<open>
  A pandas \<open>DataFrame\<close> with the default row index: the number of rows and the columns in
  their order, each a label with one cell per row. A missing value (\<open>None\<close>, \<open>NaN\<close>) is
  the cell \<open>SNull\<close>. The numeric widening that pandas applies to the storage of a column
  is not modelled: a cell carries the value it was built from.
\<close>

record frame =
  nrows :: nat
  cols :: "(string \<times> scalar list) list"

text \<open>\<open>df.columns\<close>.\<close>

definition labels :: "frame \<Rightarrow> string list" where
  "labels df = map fst (cols df)"


text \<open>
  \<open>pd.DataFrame(records)\<close> for a list of dicts: the columns are the keys in the order in
  which they first appear, and a record without a key has a missing value there.
\<close>

definition first_seen :: "string list \<Rightarrow> string list" where
  "first_seen ks = fold (\<lambda>k acc. if k \<in> set acc then acc else acc @ [k]) ks []"

definition record_get :: "flat \<Rightarrow> string \<Rightarrow> scalar" where
  "record_get r k = (case map_of r k of Some v \<Rightarrow> v | None \<Rightarrow> SNull)"

definition DataFrame :: "flat list \<Rightarrow> frame" where
  "DataFrame records =
     \<lparr>nrows = length records,
      cols = map (\<lambda>k. (k, map (\<lambda>r. record_get r k) records))
               (first_seen (concat (map (map fst) records)))\<rparr>"

text \<open>\<open>df.columns = names\<close>, for as many names as there are columns.\<close>

definition set_columns :: "frame \<Rightarrow> string list \<Rightarrow> frame" where
  "set_columns df names = df\<lparr>cols := zip names (map snd (cols df))\<rparr>"

text \<open>
  \<open>df[c]\<close> and \<open>df[c] = series\<close> for a label that occurs once among the columns, and
  \<open>df[c] = value\<close> for a scalar. An assignment to an existing label replaces the column
  where it stands; a new label becomes the last column. The functions that use them
  read labels of the frame only.
\<close>

definition getitem :: "frame \<Rightarrow> string \<Rightarrow> scalar list" where
  "getitem df c = (case map_of (cols df) c of Some xs \<Rightarrow> xs | None \<Rightarrow> [])"

definition setitem :: "frame \<Rightarrow> string \<Rightarrow> scalar list \<Rightarrow> frame" where
  "setitem df c xs = df\<lparr>cols := AList.update c xs (cols df)\<rparr>"

definition setitem_scalar :: "frame \<Rightarrow> string \<Rightarrow> scalar \<Rightarrow> frame" where
  "setitem_scalar df c v = setitem df c (replicate (nrows df) v)"

text \<open>
  \<open>a.combine_first(b)\<close> for two columns of one frame: row by row, the value of \<open>a\<close>
  unless it is missing, the value of \<open>b\<close> then.
\<close>

definition combine_first :: "scalar list \<Rightarrow> scalar list \<Rightarrow> scalar list" where
  "combine_first a b = map2 (\<lambda>x y. if x = SNull then y else x) a b"

text \<open>
  \<open>df.drop(columns=names)\<close>: every column whose label is among \<open>names\<close> is removed, also
  when the label occurs more than once; a name that is no label of the frame raises.
\<close>

definition remove_columns :: "frame \<Rightarrow> string list \<Rightarrow> frame" where
  "remove_columns df names = df\<lparr>cols := filter (\<lambda>(l, xs). l \<notin> set names) (cols df)\<rparr>"

definition drop_columns :: "frame \<Rightarrow> string list \<Rightarrow> frame option" where
  "drop_columns df names =
     (if set names \<subseteq> set (labels df) then Some (remove_columns df names) else None)"

text \<open>
  \<open>df[c]\<close> is a column (a \<open>Series\<close>) when the label \<open>c\<close> occurs once among the columns. When
  it occurs more than once \<open>df[c]\<close> is a frame, and when it does not occur the access
  raises.
\<close>

definition is_series :: "frame \<Rightarrow> string \<Rightarrow> bool" where
  "is_series df c = (count_list (labels df) c = 1)"

section \<open>Column reconciler\<close>

text \<open>
  The loop of lines 77 to 88 over \<open>df.columns\<close>; its state is the dict \<open>lowercase_cols\<close>,
  the list \<open>columns_to_drop\<close> and the frame, which line 83 updates in place. When
  \<open>df[existing_col]\<close> and \<open>df[col]\<close> are columns, line 83 is \<open>combine_first\<close> on columns and an
  assignment to an existing label. Otherwise a label is repeated, which happens when
  line 190 has given two columns the same sanitized name: then line 83 calls
  \<open>combine_first\<close> on a frame, and what pandas does there is the parameter \<open>on_repeated\<close>,
  which yields the frame after line 83 or \<open>None\<close> when the line raises. The result of the
  loop is \<open>None\<close> when line 83 raises.
\<close>

type_synonym repeated_labels = "frame \<Rightarrow> string \<Rightarrow> string \<Rightarrow> frame option"

fun merge_loop ::
  "repeated_labels \<Rightarrow> string list \<Rightarrow> (string \<rightharpoonup> string) \<Rightarrow> string list \<Rightarrow> frame
     \<Rightarrow> (string list \<times> frame) option" where
  "merge_loop on_repeated [] lowercase_cols columns_to_drop df = Some (columns_to_drop, df)"
| "merge_loop on_repeated (col # rest) lowercase_cols columns_to_drop df =
     (case lowercase_cols (lower col) of
        Some existing_col \<Rightarrow>
          (if is_series df existing_col \<and> is_series df col
           then merge_loop on_repeated rest lowercase_cols (columns_to_drop @ [col])
                  (setitem df existing_col
                     (combine_first (getitem df existing_col) (getitem df col)))
           else (case on_repeated df existing_col col of
                   None \<Rightarrow> None
                 | Some df' \<Rightarrow>
                     merge_loop on_repeated rest lowercase_cols (columns_to_drop @ [col]) df'))
      | None \<Rightarrow>
          merge_loop on_repeated rest (lowercase_cols(lower col \<mapsto> col)) columns_to_drop df)"

text \<open>
  \<open>handle_case_insensitive_duplicates\<close>, lines 69 to 93: the frame returned, or \<open>None\<close> when
  line 83 or line 91 raises.
\<close>

definition handle_case_insensitive_duplicates :: "repeated_labels \<Rightarrow> frame \<Rightarrow> frame option" where
  "handle_case_insensitive_duplicates on_repeated df =
     (case merge_loop on_repeated (labels df) Map.empty [] df of
        None \<Rightarrow> None
      | Some (columns_to_drop, df') \<Rightarrow> drop_columns df' columns_to_drop)"



section \<open>Schema enforcer\<close>

text \<open>The values of \<open>type_mapping\<close> and the two replacements of lines 139 to 142.\<close>

datatype pandas_type =
  T_object | T_int64 | T_float | T_bool | T_datetime64 | T_Int64 | T_str

definition type_mapping :: "string \<Rightarrow> pandas_type option" where
  "type_mapping bq_type =
     (if bq_type = ''STRING'' then Some T_object
      else if bq_type = ''INTEGER'' then Some T_int64
      else if bq_type = ''FLOAT'' then Some T_float
      else if bq_type = ''BOOLEAN'' then Some T_bool
      else if bq_type = ''DATE'' then Some T_datetime64
      else if bq_type = ''DATETIME'' then Some T_datetime64
      else if bq_type = ''TIMESTAMP'' then Some T_datetime64
      else if bq_type = ''NUMERIC'' then Some T_float
      else if bq_type = ''BIGNUMERIC'' then Some T_float
      else None)"

definition cast_type :: "pandas_type \<Rightarrow> pandas_type" where
  "cast_type pandas_type =
     (if pandas_type = T_int64 then T_Int64
      else if pandas_type = T_object then T_str
      else pandas_type)"

text \<open>
  What \<open>bigquery_client.get_table\<close> does: it returns the table, whose schema is a list of
  fields (name and type), raises \<open>NotFound\<close>, or raises something else.
\<close>

datatype table_lookup =
  TableFound "(string \<times> string) list" | TableNotFound | LookupFailed

text \<open>
  The collaborators of one invocation. \<open>download\<close> is the blob fetch followed by
  \<open>json.loads\<close>, \<open>None\<close> when either raises; \<open>project\<close> is \<open>bigquery_client.project\<close>,
  \<open>None\<close> when the client of line 13 could not be created; \<open>dataset_name\<close> is the
  environment variable of line 19; \<open>astype\<close> is the cast of a column by pandas, which
  returns the new column or raises with a message; \<open>utcnow\<close> is the clock; \<open>repr\<close> is
  the rendering of containers used by \<open>str\<close>; \<open>on_repeated_labels\<close> is what pandas does in
  line 83 on a frame with a repeated label.
\<close>

record env =
  download :: "string \<Rightarrow> string \<Rightarrow> json option"
  project :: "string option"
  dataset_name :: "string option"
  get_table :: "string \<Rightarrow> table_lookup"
  astype :: "pandas_type \<Rightarrow> scalar list \<Rightarrow> string + scalar list"
  utcnow :: int
  repr :: "json \<Rightarrow> string"
  on_repeated_labels :: repeated_labels

text \<open>Line 115: the dict comprehension over \<open>table.schema\<close>.\<close>

definition existing_schema :: "(string \<times> string) list \<Rightarrow> (string \<rightharpoonup> string)" where
  "existing_schema schema_fields =
     fold (\<lambda>(name, field_type) m. m(name \<mapsto> field_type)) schema_fields Map.empty"

text \<open>
  The body of the loop of lines 131 to 146 for one column: nothing to do, no mapping for
  the declared type, the cast raised, or the cast column.
\<close>

datatype coercion = Skipped | NoMapping string | Raised string | Cast "scalar list"

definition coerce :: "env \<Rightarrow> (string \<rightharpoonup> string) \<Rightarrow> frame \<Rightarrow> string \<Rightarrow> coercion" where
  "coerce e schema df column =
     (case schema column of
        None \<Rightarrow> Skipped
      | Some bq_type \<Rightarrow>
          (case type_mapping bq_type of
             None \<Rightarrow> NoMapping bq_type
           | Some pandas_type \<Rightarrow>
               (case astype e (cast_type pandas_type) (getitem df column) of
                  Inl msg \<Rightarrow> Raised msg
                | Inr xs \<Rightarrow> Cast xs)))"

text \<open>
  The loop itself, with the frame and the printed lines as its state. The handler of
  line 148 encloses the whole loop: when a cast raises, the loop is left and the
  columns that follow are not visited.
\<close>

fun enforce_loop ::
  "env \<Rightarrow> (string \<rightharpoonup> string) \<Rightarrow> string list \<Rightarrow> frame \<Rightarrow> string list \<Rightarrow> frame \<times> string list" where
  "enforce_loop e schema [] df out = (df, out)"
| "enforce_loop e schema (column # rest) df out =
     (case coerce e schema df column of
        Skipped \<Rightarrow> enforce_loop e schema rest df out
      | NoMapping bq_type \<Rightarrow>
          enforce_loop e schema rest df
            (out @ [''No mapping for BigQuery type '' @ [CHR 0x27] @ bq_type @ [CHR 0x27]
                    @ '' for column '' @ [CHR 0x27] @ column @ [CHR 0x27]])
      | Raised msg \<Rightarrow> (df, out @ [''Error upgrading datatype : '' @ msg])
      | Cast xs \<Rightarrow> enforce_loop e schema rest (setitem df column xs) out)"

text \<open>
  \<open>schema_enforcement\<close>, lines 95 to 150: the frame and the lines printed, or \<open>None\<close> when
  the lookup raises something other than \<open>NotFound\<close>, which line 106 does not catch.
\<close>

definition schema_enforcement :: "env \<Rightarrow> frame \<Rightarrow> string \<Rightarrow> (frame \<times> string list) option" where
  "schema_enforcement e df table_id =
     (case get_table e table_id of
        LookupFailed \<Rightarrow> None
      | TableNotFound \<Rightarrow> Some (df, [])
      | TableFound schema_fields \<Rightarrow>
          Some (enforce_loop e (existing_schema schema_fields) (labels df) df
                  [''Table already exist. Handling schema type mismatch.'']))"

section \<open>Orchestrator\<close>

text \<open>The arguments of \<open>df.to_gbq\<close> in line 213.\<close>

record gbq_call =
  destination_table :: string
  project_id :: string
  if_exists :: string
  rows :: frame

text \<open>
  How an invocation ends: with the pair returned in line 184; with the call of
  \<open>to_gbq\<close> (the function returns \<open>None\<close> after it, whether or not the call raises);
  or with an exception raised before that call and caught in line 217.
\<close>

datatype outcome = Returned string nat | Appended gbq_call | Aborted

fun write_attempted :: "outcome \<Rightarrow> bool" where
  "write_attempted (Appended w) = True"
| "write_attempted other = False"

text \<open>Line 199: an f-string renders \<open>None\<close> as the text \<open>None\<close>.\<close>

definition table_id_of :: "string \<Rightarrow> string option \<Rightarrow> string \<Rightarrow> string" where
  "table_id_of proj dataset file_name =
     proj @ ''.'' @ (case dataset of None \<Rightarrow> ''None'' | Some d \<Rightarrow> d) @ ''.'' @ table_name file_name"

text \<open>Lines 187 and 190: the frame of the records, with every column name sanitized.\<close>

definition sanitized_frame :: "flat list \<Rightarrow> frame" where
  "sanitized_frame flattened =
     (let df = DataFrame flattened
      in set_columns df (map sanitize_column_name (labels df)))"

text \<open>
  \<open>process_json_file\<close>, lines 152 to 218. The event is a dict; a missing key raises.
  The progress lines that the function prints are not modelled.
\<close>

definition process_json_file :: "env \<Rightarrow> (string \<rightharpoonup> string) \<Rightarrow> outcome" where
  "process_json_file e event =
     (case event ''name'' of None \<Rightarrow> Aborted | Some file_name \<Rightarrow>
     (case event ''bucket'' of None \<Rightarrow> Aborted | Some bucket_name \<Rightarrow>
     (case download e bucket_name file_name of None \<Rightarrow> Aborted | Some json_data \<Rightarrow>
     (case flattened_data (repr e) json_data of None \<Rightarrow> Aborted | Some flattened \<Rightarrow>
       if flattened = [] then Returned (''Empty source file: '' @ file_name @ ''.'') 200
       else
         (let df1 = sanitized_frame flattened
          in
         (case handle_case_insensitive_duplicates (on_repeated_labels e) df1 of
            None \<Rightarrow> Aborted | Some df2 \<Rightarrow>
         (case project e of None \<Rightarrow> Aborted | Some proj \<Rightarrow>
         (let source_file_name = basename file_name;
              table_id = table_id_of proj (dataset_name e) file_name
          in
         (case schema_enforcement e df2 table_id of None \<Rightarrow> Aborted | Some (df3, out) \<Rightarrow>
         (let df4 = setitem_scalar df3 ''create_date'' (STime (utcnow e));
              df5 = setitem_scalar df4 ''source_file_name'' (SStr source_file_name)
          in Appended \<lparr>destination_table = table_id, project_id = proj,
                        if_exists = ''append'', rows = df5\<rparr>))))))))))"

section \<open>A test environment\<close>

text \<open>
  Concrete collaborators for evaluating the definitions: one bucket with two files,
  a project in which the table \<open>p.d.people\<close> exists with three integer columns, and a cast
  that turns the text \<open>30\<close> into the integer and raises on the text \<open>thirty\<close>; a batch
  for that table, two records whose columns \<open>Name\<close> and \<open>name\<close> differ by case, and one
  record with three keys of which two have the same sanitized name. For line 83 on a
  repeated label there are two stand-ins: it raises, or it leaves the frame as it is.
\<close>

definition example_repr :: "json \<Rightarrow> string" where
  "example_repr v = []"

definition example_astype :: "pandas_type \<Rightarrow> scalar list \<Rightarrow> string + scalar list" where
  "example_astype t xs =
     (if SStr ''thirty'' \<in> set xs then Inl ''invalid literal''
      else Inr (map (\<lambda>v. if v = SStr ''30'' then SInt 30 else v) xs))"

definition example_download :: "string \<Rightarrow> string \<Rightarrow> json option" where
  "example_download bucket_name file_name =
     (if file_name = ''empty_20240115_103000.json'' then Some (Object [])
      else if file_name = ''none_20240115_103000.json'' then Some (Array [])
      else None)"

definition example_get_table :: "string \<Rightarrow> table_lookup" where
  "example_get_table table_id =
     (if table_id = ''p.d.people'' then TableFound [(''height'', ''INTEGER''), (''age'', ''INTEGER''), (''weight'', ''INTEGER'')]
      else TableNotFound)"

definition example_raises :: repeated_labels where
  "example_raises df existing_col col = None"


definition example_env :: env where
  "example_env =
     \<lparr>download = example_download, project = Some ''p'', dataset_name = Some ''d'',
      get_table = example_get_table, astype = example_astype, utcnow = 0,
      repr = example_repr, on_repeated_labels = example_raises\<rparr>"

definition example_event :: "string \<Rightarrow> (string \<rightharpoonup> string)" where
  "example_event file_name = [''name'' \<mapsto> file_name, ''bucket'' \<mapsto> ''b'']"

definition example_people :: frame where
  "example_people =
     \<lparr>nrows = 1, cols = [(''height'', [SStr ''30'']), (''age'', [SStr ''thirty'']),
                         (''weight'', [SStr ''30''])]\<rparr>"


definition example_prices :: "flat list" where
  "example_prices =
     [[(''Unit Price'', SInt 1), (''unit_price'', SInt 2), (''Unit-Price'', SInt 3)]]"

section \<open>Properties of the name sanitizer\<close>

lemma underscore_word: "is_word_char CHR ''_''"
  by (simp add: is_word_char_def)

lemma percent_not_word: "\<not> is_word_char CHR ''%''"
  by (simp add: is_word_char_def in_range_def)

lemma slash_not_word: "\<not> is_word_char CHR ''/''"
  by (simp add: is_word_char_def in_range_def)

lemma sub_non_word_all: "list_all is_word_char (sub_non_word s)"
  by (induction s) (simp_all add: sub_non_word_def underscore_word)

lemma set_sub_underscores: "set (sub_underscores s) \<subseteq> set s"
  by (induction s rule: sub_underscores.induct) auto

lemma rev_split_while: "rev (dropWhile P xs) @ rev (takeWhile P xs) = rev xs"
  by (simp flip: rev_append)

lemma strip_underscores_suffix:
  "strip_underscores s @ rev (takeWhile (\<lambda>c. c = CHR ''_'') (rev (dropWhile (\<lambda>c. c = CHR ''_'') s)))
     = dropWhile (\<lambda>c. c = CHR ''_'') s"
  unfolding strip_underscores_def
  using rev_split_while [of "\<lambda>c. c = CHR ''_''" "rev (dropWhile (\<lambda>c. c = CHR ''_'') s)"]
  by simp

lemma strip_underscores_decomp: "\<exists>p q. s = p @ strip_underscores s @ q"
proof -
  let ?P = "\<lambda>c. c = CHR ''_''"
  let ?q = "rev (takeWhile ?P (rev (dropWhile ?P s)))"
  have "takeWhile ?P s @ strip_underscores s @ ?q = takeWhile ?P s @ dropWhile ?P s"
    by (simp only: strip_underscores_suffix)
  then have "s = takeWhile ?P s @ strip_underscores s @ ?q" by simp
  then show ?thesis by blast
qed

lemma set_strip_underscores: "set (strip_underscores s) \<subseteq> set s"
proof -
  obtain p q where "s = p @ strip_underscores s @ q"
    using strip_underscores_decomp by blast
  then have "set s = set p \<union> set (strip_underscores s) \<union> set q"
    by (metis set_append sup_assoc)
  then show ?thesis by blast
qed

lemma sanitize_word_chars: "list_all is_word_char (sanitize_column_name s)"
proof -
  have "set (sanitize_column_name s)
          \<subseteq> set (sub_non_word (replace_char CHR ''/'' ''_per_'' (replace_char CHR ''%'' ''percent'' s)))"
    unfolding sanitize_column_name_def Let_def
    using set_strip_underscores set_sub_underscores by blast
  then show ?thesis
    using sub_non_word_all [of "replace_char CHR ''/'' ''_per_'' (replace_char CHR ''%'' ''percent'' s)"]
    by (auto simp: list_all_iff)
qed

lemma has_double_append: "has_double (xs @ CHR ''_'' # CHR ''_'' # ys)"
proof (induction xs)
  case Nil
  show ?case by simp
next
  case (Cons x xs)
  then show ?case by (cases "xs @ CHR ''_'' # CHR ''_'' # ys") auto
qed

lemma sub_underscores_hd: "\<exists>r. sub_underscores (b # cs) = b # r"
  by (induction "b # cs" arbitrary: b cs rule: sub_underscores.induct) auto

lemma sub_underscores_no_double: "\<not> has_double (sub_underscores s)"
proof (induction s rule: sub_underscores.induct)
  case (1 a b cs)
  obtain r where r: "sub_underscores (b # cs) = b # r"
    using sub_underscores_hd by blast
  with 1 show ?case by auto
qed simp_all

lemma has_double_infix: "has_double q \<Longrightarrow> has_double (p @ q @ r)"
proof (induction q arbitrary: p rule: has_double.induct)
  case (1 a b cs)
  show ?case
  proof (cases "a = CHR ''_'' \<and> b = CHR ''_''")
    case True
    then show ?thesis using has_double_append [of p "cs @ r"] by simp
  next
    case False
    with 1 have "has_double (b # cs)" by simp
    then have "has_double ((p @ [a]) @ (b # cs) @ r)" by (rule "1.IH")
    then show ?thesis by simp
  qed
qed simp_all

lemma sanitize_no_double: "\<not> has_double (sanitize_column_name s)"
proof -
  let ?u = "sub_underscores (sub_non_word (replace_char CHR ''/'' ''_per_'' (replace_char CHR ''%'' ''percent'' s)))"
  obtain p q where "?u = p @ strip_underscores ?u @ q"
    using strip_underscores_decomp by blast
  then have "has_double (strip_underscores ?u) \<Longrightarrow> has_double ?u"
    using has_double_infix [of "strip_underscores ?u" p q] by simp
  then show ?thesis
    using sub_underscores_no_double unfolding sanitize_column_name_def Let_def by blast
qed

lemma dropWhile_not_lead: "dropWhile P xs \<noteq> y # ys \<or> \<not> P y"
  by (induction xs) auto

lemma strip_underscores_no_lead: "strip_underscores s \<noteq> CHR ''_'' # t"
proof
  let ?P = "\<lambda>c. c = CHR ''_''"
  assume a: "strip_underscores s = CHR ''_'' # t"
  have "dropWhile ?P s = CHR ''_'' # (t @ rev (takeWhile ?P (rev (dropWhile ?P s))))"
    using strip_underscores_suffix [of s] a by simp
  then show False using dropWhile_not_lead [of ?P s] by blast
qed

lemma strip_underscores_no_trail: "strip_underscores s \<noteq> t @ [CHR ''_'']"
proof
  let ?P = "\<lambda>c. c = CHR ''_''"
  let ?t = "dropWhile ?P s"
  assume a: "strip_underscores s = t @ [CHR ''_'']"
  then have "rev (strip_underscores s) = CHR ''_'' # rev t" by simp
  then have "dropWhile ?P (rev ?t) = CHR ''_'' # rev t"
    unfolding strip_underscores_def by simp
  then show False using dropWhile_not_lead [of ?P "rev ?t"] by blast
qed

lemma replace_char_absent: "c \<notin> set s \<Longrightarrow> replace_char c r s = s"
  by (induction s) (auto simp: replace_char_def)

lemma sub_non_word_id: "list_all is_word_char s \<Longrightarrow> sub_non_word s = s"
  by (induction s) (simp_all add: sub_non_word_def)

lemma sub_underscores_id: "\<not> has_double s \<Longrightarrow> sub_underscores s = s"
  by (induction s rule: sub_underscores.induct) auto

lemma strip_underscores_id:
  assumes "\<And>t. s \<noteq> CHR ''_'' # t" "\<And>t. s \<noteq> t @ [CHR ''_'']"
  shows "strip_underscores s = s"
proof -
  let ?P = "\<lambda>c. c = CHR ''_''"
  have 1: "dropWhile ?P s = s" using assms(1) by (cases s) auto
  have "\<And>t. rev s \<noteq> CHR ''_'' # t"
  proof
    fix t assume "rev s = CHR ''_'' # t"
    then have "rev (rev s) = rev (CHR ''_'' # t)" by (rule arg_cong)
    then have "s = rev t @ [CHR ''_'']" by simp
    then show False using assms(2) by blast
  qed
  then have 2: "dropWhile ?P (rev s) = rev s" by (cases "rev s") auto
  show ?thesis unfolding strip_underscores_def by (simp add: 1 2)
qed

lemma sanitize_fixed:
  assumes "list_all is_word_char s" "\<not> has_double s"
    "\<And>t. s \<noteq> CHR ''_'' # t" "\<And>t. s \<noteq> t @ [CHR ''_'']"
  shows "sanitize_column_name s = s"
proof -
  have "CHR ''%'' \<notin> set s" "CHR ''/'' \<notin> set s"
    using assms(1) percent_not_word slash_not_word by (auto simp: list_all_iff)
  then show ?thesis
    unfolding sanitize_column_name_def Let_def
    by (simp add: replace_char_absent sub_non_word_id sub_underscores_id strip_underscores_id assms)
qed

text \<open>
  Claim C5. For every input string, the result of \<open>sanitize_column_name\<close> consists of
  characters of \<open>[A-Za-z0-9_]\<close> only, does not start and does not end with an underscore,
  and contains no two adjacent underscores; \<open>Revenue %/Total\<close> becomes
  \<open>Revenue_percent_per_Total\<close>. The function has no failing branch, and the empty string
  is mapped to the empty string.
\<close>

theorem sanitize_shape:
  "list_all is_word_char (sanitize_column_name s)
   \<and> (\<forall>t. sanitize_column_name s \<noteq> CHR ''_'' # t)
   \<and> (\<forall>t. sanitize_column_name s \<noteq> t @ ''_'')
   \<and> (\<forall>xs ys. sanitize_column_name s \<noteq> xs @ ''__'' @ ys)
   \<and> sanitize_column_name ''Revenue %/Total'' = ''Revenue_percent_per_Total''
   \<and> sanitize_column_name [] = []"
proof (intro conjI allI)
  show "list_all is_word_char (sanitize_column_name s)" by (rule sanitize_word_chars)
  show "\<And>t. sanitize_column_name s \<noteq> CHR ''_'' # t"
    unfolding sanitize_column_name_def Let_def by (rule strip_underscores_no_lead)
  show "\<And>t. sanitize_column_name s \<noteq> t @ ''_''"
    unfolding sanitize_column_name_def Let_def by (rule strip_underscores_no_trail)
  show "\<And>xs ys. sanitize_column_name s \<noteq> xs @ ''__'' @ ys"
    using sanitize_no_double [of s] has_double_append by auto
  show "sanitize_column_name ''Revenue %/Total'' = ''Revenue_percent_per_Total''"
    by code_simp
  show "sanitize_column_name [] = []"
    by code_simp
qed

text \<open>
  Claim C6. \<open>sanitize_column_name\<close> is idempotent: sanitizing a sanitized name changes
  nothing.
\<close>

theorem sanitize_idempotent:
  "sanitize_column_name (sanitize_column_name x) = sanitize_column_name x"
proof (rule sanitize_fixed)
  show "list_all is_word_char (sanitize_column_name x)" by (rule sanitize_word_chars)
  show "\<not> has_double (sanitize_column_name x)" by (rule sanitize_no_double)
  show "\<And>t. sanitize_column_name x \<noteq> CHR ''_'' # t"
    unfolding sanitize_column_name_def Let_def by (rule strip_underscores_no_lead)
  show "\<And>t. sanitize_column_name x \<noteq> t @ [CHR ''_'']"
    unfolding sanitize_column_name_def Let_def by (rule strip_underscores_no_trail)
qed

section \<open>Properties of the flattener\<close>

lemma flatten_items_append:
  "flatten_items R (pre @ rest) p sep acc =
     flatten_items R rest p sep (flatten_items R pre p sep acc)"
proof (induction pre arbitrary: acc)
  case Nil
  show ?case by simp
next
  case (Cons kv pre)
  obtain k v where kv: "kv = (k, v)" by (cases kv)
  show ?case by (cases v) (simp_all add: kv Cons.IH)
qed

lemma flatten_elems_enumerate:
  "flatten_elems R items i nk sep acc =
     fold (\<lambda>(j, item) d. dict_update d (flatten_json R item (nk @ sep @ str_nat j) sep))
       (enumerate i items) acc"
  by (induction items arbitrary: i acc) simp_all

lemma dispatch_loop_last:
  "dispatch_loop R kvs fd =
     (if filter (\<lambda>(k, v). is_list_of_dicts v) kvs = [] then fd
      else flatten_each R (array_items (snd (last (filter (\<lambda>(k, v). is_list_of_dicts v) kvs)))))"
proof (induction kvs arbitrary: fd)
  case Nil
  show ?case by simp
next
  case (Cons kv kvs)
  obtain k v where kv: "kv = (k, v)" by (cases kv)
  show ?case by (simp add: kv Cons.IH)
qed

text \<open>
  Claim C7. When \<open>flatten_json\<close> meets a key whose value is a list of dicts only, it
  flattens every element under the prefix \<open>new_key + sep + index\<close>, the index counted
  from 0, and merges the pairs of all elements into the one flat record that it is
  building: the record built from the keys before is extended, and the keys after are
  processed on the extended record. \<open>{"a": [{"x": 1}, {"x": 2}]}\<close> becomes the single record
  \<open>{"a_0_x": 1, "a_1_x": 2}\<close>.
\<close>

theorem flatten_list_of_dicts_widens:
  "(list_all is_dict items \<longrightarrow>
      flatten_json R (Object (pre @ (key, Array items) # rest)) parent_key sep =
        flatten_items R rest parent_key sep
          (fold (\<lambda>(i, item) flat_dict.
                   dict_update flat_dict
                     (flatten_json R item (new_key_of parent_key sep key @ sep @ str_nat i) sep))
             (enumerate 0 items) (flatten_json R (Object pre) parent_key sep)))
   \<and> flatten_json R
         (Object [(''a'', Array [Object [(''x'', Scalar (SInt 1))],
                                 Object [(''x'', Scalar (SInt 2))]])]) [] ''_''
       = [(''a_0_x'', SInt 1), (''a_1_x'', SInt 2)]"
proof (intro conjI impI)
  assume "list_all is_dict items"
  then show "flatten_json R (Object (pre @ (key, Array items) # rest)) parent_key sep =
        flatten_items R rest parent_key sep
          (fold (\<lambda>(i, item) flat_dict.
                   dict_update flat_dict
                     (flatten_json R item (new_key_of parent_key sep key @ sep @ str_nat i) sep))
             (enumerate 0 items) (flatten_json R (Object pre) parent_key sep))"
    by (simp add: flatten_items_append flatten_elems_enumerate)
next
  show "flatten_json R
         (Object [(''a'', Array [Object [(''x'', Scalar (SInt 1))],
                                 Object [(''x'', Scalar (SInt 2))]])]) [] ''_''
       = [(''a_0_x'', SInt 1), (''a_1_x'', SInt 2)]"
    by (simp add: new_key_of_def dict_update_def str_nat.simps digit_char_def)
qed

theorem flatten_list_of_dicts_widens_witness:
  "list_all is_dict [Object [(''x'', Scalar (SInt 1))], Object [(''y'', Scalar (SInt 2))]]
   \<and> flatten_json example_repr
        (Object ([(''id'', Scalar (SInt 7))]
                 @ (''a'', Array [Object [(''x'', Scalar (SInt 1))], Object [(''y'', Scalar (SInt 2))]])
                 # [(''z'', Scalar SNull)])) ''p'' ''_''
      = [(''p_id'', SInt 7), (''p_a_0_x'', SInt 1), (''p_a_1_y'', SInt 2), (''p_z'', SNull)]"
  using flatten_list_of_dicts_widens
    [where items = "[Object [(''x'', Scalar (SInt 1))], Object [(''y'', Scalar (SInt 2))]]"
       and R = example_repr and pre = "[(''id'', Scalar (SInt 7))]" and key = "''a''"
       and rest = "[(''z'', Scalar SNull)]" and parent_key = "''p''" and sep = "''_''"]
  by (simp add: new_key_of_def dict_update_def str_nat.simps digit_char_def)

text \<open>
  Claim C8. When \<open>flatten_json\<close> meets a key whose value is a list with at least one
  element that is not a dict, it stores under \<open>new_key\<close> one string: the \<open>str\<close> of the
  elements joined with a comma and a space. \<open>{"tags": ["a", "b", "c"]}\<close> becomes
  \<open>{"tags": "a, b, c"}\<close>.
\<close>

theorem flatten_mixed_list_joined:
  "(\<not> list_all is_dict items \<longrightarrow>
      flatten_json R (Object (pre @ (key, Array items) # rest)) parent_key sep =
        flatten_items R rest parent_key sep
          (AList.update (new_key_of parent_key sep key)
             (SStr (join '', '' (map (py_str R) items)))
             (flatten_json R (Object pre) parent_key sep)))
   \<and> flatten_json R
         (Object [(''tags'', Array [Scalar (SStr ''a''), Scalar (SStr ''b''), Scalar (SStr ''c'')])])
         [] ''_''
       = [(''tags'', SStr ''a, b, c'')]"
  by (simp add: flatten_items_append new_key_of_def)

theorem flatten_mixed_list_joined_witness:
  "\<not> list_all is_dict [Scalar (SInt 1), Object [], Scalar SNull, Scalar (SBool True)]
   \<and> flatten_json example_repr
        (Object ([(''id'', Scalar (SInt 7))]
                 @ (''v'', Array [Scalar (SInt 1), Object [], Scalar SNull, Scalar (SBool True)])
                 # [(''z'', Scalar SNull)])) [] ''_''
      = [(''id'', SInt 7), (''v'', SStr ''1, , None, True''), (''z'', SNull)]"
  using flatten_mixed_list_joined
    [where items = "[Scalar (SInt 1), Object [], Scalar SNull, Scalar (SBool True)]"
       and R = example_repr and pre = "[(''id'', Scalar (SInt 7))]" and key = "''v''"
       and rest = "[(''z'', Scalar SNull)]" and parent_key = "[]" and sep = "''_''"]
  by (simp add: new_key_of_def example_repr_def str_int_def str_nat.simps digit_char_def)

section \<open>Properties of the top-level dispatch\<close>

text \<open>
  Claim C4. For a top-level object with at least one key whose value is a list of dicts,
  the rows are the elements of the list under the last such key, each flattened on its
  own; nothing of the earlier such keys and nothing of the record of the whole object
  remains.
\<close>

theorem last_list_of_dicts_wins:
  "filter (\<lambda>(k, v). is_list_of_dicts v) kvs \<noteq> [] \<Longrightarrow>
     flattened_data R (Object kvs) =
       Some (map (\<lambda>item. flatten_json R item [] ''_'')
               (array_items (snd (last (filter (\<lambda>(k, v). is_list_of_dicts v) kvs)))))"
  by (simp add: dispatch_loop_last flatten_each_def)

theorem last_list_of_dicts_wins_witness:
  "filter (\<lambda>(k, v). is_list_of_dicts v)
      [(''n'', Scalar (SInt 0)),
       (''a'', Array [Object [(''x'', Scalar (SInt 1))]]),
       (''t'', Array [Scalar (SInt 5)]),
       (''b'', Array [Object [(''y'', Scalar (SInt 2))], Object [(''y'', Scalar (SInt 3))]])] \<noteq> []
   \<and> flattened_data example_repr
        (Object [(''n'', Scalar (SInt 0)),
                 (''a'', Array [Object [(''x'', Scalar (SInt 1))]]),
                 (''t'', Array [Scalar (SInt 5)]),
                 (''b'', Array [Object [(''y'', Scalar (SInt 2))], Object [(''y'', Scalar (SInt 3))]])])
      = Some [[(''y'', SInt 2)], [(''y'', SInt 3)]]"
  using last_list_of_dicts_wins
    [where R = example_repr and kvs =
      "[(''n'', Scalar (SInt 0)),
        (''a'', Array [Object [(''x'', Scalar (SInt 1))]]),
        (''t'', Array [Scalar (SInt 5)]),
        (''b'', Array [Object [(''y'', Scalar (SInt 2))], Object [(''y'', Scalar (SInt 3))]])]"]
  by (simp add: new_key_of_def)

text \<open>
  Claim C10. A key whose value is the empty list leaves no trace in the flat record:
  the empty list passes the test of line 55, no element is merged and nothing is stored
  under the key, so the result is that of the object without the key. When the last key
  of a top-level object whose value is a list of dicts holds the empty list, the
  sequence of records is empty.
\<close>

theorem empty_array_dropped:
  "is_list_of_dicts (Array [])
   \<and> flatten_json R (Object (pre @ (key, Array []) # rest)) parent_key sep =
       flatten_json R (Object (pre @ rest)) parent_key sep
   \<and> flatten_json R (Object [(key, Array [])]) parent_key sep = []
   \<and> (filter (\<lambda>(k, v). is_list_of_dicts v) kvs \<noteq> []
        \<and> snd (last (filter (\<lambda>(k, v). is_list_of_dicts v) kvs)) = Array []
      \<longrightarrow> flattened_data R (Object kvs) = Some [])"
  by (simp add: flatten_items_append dispatch_loop_last flatten_each_def)

theorem empty_array_dropped_witness:
  "filter (\<lambda>(k, v). is_list_of_dicts v)
      [(''a'', Array [Object [(''x'', Scalar (SInt 1))]]), (''b'', Array []), (''n'', Scalar SNull)] \<noteq> []
   \<and> snd (last (filter (\<lambda>(k, v). is_list_of_dicts v)
      [(''a'', Array [Object [(''x'', Scalar (SInt 1))]]), (''b'', Array []), (''n'', Scalar SNull)]))
       = Array []
   \<and> flattened_data example_repr
        (Object [(''a'', Array [Object [(''x'', Scalar (SInt 1))]]), (''b'', Array []),
                 (''n'', Scalar SNull)]) = Some []"
  using empty_array_dropped
    [where R = example_repr and kvs =
      "[(''a'', Array [Object [(''x'', Scalar (SInt 1))]]), (''b'', Array []), (''n'', Scalar SNull)]"]
  by simp

section \<open>Properties of the table name\<close>

lemma split_on_nonempty: "split_on c s \<noteq> []"
  by (induction s) (auto split: list.splits)

lemma hd_split_on: "hd (split_on c s) = takeWhile (\<lambda>x. x \<noteq> c) s"
  by (induction s) (auto split: list.splits simp: split_on_nonempty)

lemma takeWhile_absent: "c \<notin> set s \<Longrightarrow> takeWhile (\<lambda>x. x \<noteq> c) s = s"
  by (induction s) auto

lemma dropWhile_first: "c \<notin> set b \<Longrightarrow> dropWhile (\<lambda>x. x \<noteq> c) (b @ c # a) = c # a"
  by (induction b) auto

lemma strip_extension_one_dot:
  assumes "length (filter (\<lambda>c. c = CHR ''.'') s) \<le> 1"
  shows "strip_extension s = takeWhile (\<lambda>c. c \<noteq> CHR ''.'') s"
proof (cases "CHR ''.'' \<in> set s")
  case False
  then show ?thesis by (simp add: strip_extension_def takeWhile_absent)
next
  case True
  then obtain a b where s: "s = a @ CHR ''.'' # b" and a: "CHR ''.'' \<notin> set a"
    by (meson split_list_first)
  have "filter (\<lambda>c. c = CHR ''.'') b = []"
    using assms by (simp add: s)
  then have b: "CHR ''.'' \<notin> set b"
    by (auto simp: filter_empty_conv)
  have "dropWhile (\<lambda>c. c \<noteq> CHR ''.'') (rev b @ CHR ''.'' # rev a) = CHR ''.'' # rev a"
    using b by (simp add: dropWhile_first)
  then have "strip_extension s = a"
    using True by (simp add: strip_extension_def s)
  moreover have "takeWhile (\<lambda>c. c \<noteq> CHR ''.'') s = a"
    using a by (simp add: s takeWhile_append)
  ultimately show ?thesis by simp
qed

lemma butlast_twice: "butlast (butlast xs) = take (length xs - 2) xs"
  by (simp add: butlast_conv_take numeral_2_eq_2)

text \<open>
  Claim C9, as stated, at its own example: the short name derived from
  \<open>sales_report_2024_01_15_103000.json\<close> is not \<open>sales_report_2024_01_15\<close>.
\<close>

theorem table_name_example_differs:
  "table_name ''sales_report_2024_01_15_103000.json'' \<noteq> ''sales_report_2024_01_15''"
  by code_simp

text \<open>
  Claim C9, amended. For every object path whose base filename contains at most one
  dot, the short name of the table is obtained from the base filename by removing the
  extension, splitting at the underscores, dropping the last two segments and joining
  the rest with underscores; \<open>sales_report_2024_01_15_103000.json\<close> gives
  \<open>sales_report_2024_01\<close>.
\<close>

theorem table_name_single_dot:
  "(length (filter (\<lambda>c. c = CHR ''.'') (basename file_name)) \<le> 1 \<longrightarrow>
      table_name file_name = spec_table_name file_name)
   \<and> table_name ''sales_report_2024_01_15_103000.json'' = ''sales_report_2024_01''"
proof (intro conjI impI)
  assume "length (filter (\<lambda>c. c = CHR ''.'') (basename file_name)) \<le> 1"
  then show "table_name file_name = spec_table_name file_name"
    by (simp add: table_name_def spec_table_name_def hd_split_on strip_extension_one_dot
        butlast_twice)
next
  show "table_name ''sales_report_2024_01_15_103000.json'' = ''sales_report_2024_01''"
    by code_simp
qed

theorem table_name_single_dot_witness:
  "length (filter (\<lambda>c. c = CHR ''.'') (basename ''in/orders_eu_20240115_103000.json'')) \<le> 1
   \<and> table_name ''in/orders_eu_20240115_103000.json'' = ''orders_eu''
   \<and> spec_table_name ''in/orders_eu_20240115_103000.json'' = ''orders_eu''"
  using table_name_single_dot [where file_name = "''in/orders_eu_20240115_103000.json''"]
  by (simp add: spec_table_name_def strip_extension_def basename_def)

section \<open>Properties of the column reconciler\<close>

lemma getitem_setitem_same: "getitem (setitem df c xs) c = xs"
  by (simp add: getitem_def setitem_def update_conv')

lemma getitem_setitem_other: "d \<noteq> c \<Longrightarrow> getitem (setitem df c xs) d = getitem df d"
  by (simp add: getitem_def setitem_def update_conv')

lemma labels_setitem: "c \<in> set (labels df) \<Longrightarrow> labels (setitem df c xs) = labels df"
  by (simp add: labels_def setitem_def update_keys)

lemma nrows_setitem: "nrows (setitem df c xs) = nrows df"
  by (simp add: setitem_def)





lemma keys_filter: "map fst (filter (\<lambda>(l, xs). l \<notin> S) al) = filter (\<lambda>l. l \<notin> S) (map fst al)"
  by (induction al) auto


















lemma distinct_fold_first_seen:
  "distinct acc \<Longrightarrow> distinct (fold (\<lambda>k acc. if k \<in> set acc then acc else acc @ [k]) ks acc)"
  by (induction ks arbitrary: acc) auto

lemma labels_DataFrame: "labels (DataFrame records) = first_seen (concat (map (map fst) records))"
  by (simp add: labels_def DataFrame_def comp_def)

lemma distinct_labels_DataFrame: "distinct (labels (DataFrame records))"
  by (simp add: labels_DataFrame first_seen_def distinct_fold_first_seen)






lemma sanitized_prices:
  "sanitized_frame example_prices =
     \<lparr>nrows = 1, cols = [(''Unit_Price'', [SInt 1]), (''unit_price'', [SInt 2]),
                         (''Unit_Price'', [SInt 3])]\<rparr>"
  by code_simp

lemma first_seen_column_lost:
  "handle_case_insensitive_duplicates on_rep (sanitized_frame example_prices) = Some df'
     \<Longrightarrow> ''Unit_Price'' \<notin> set (labels df')"
  by (auto simp: sanitized_prices handle_case_insensitive_duplicates_def labels_def is_series_def
        lower_def lower_char_def drop_columns_def remove_columns_def keys_filter
      split: option.splits if_splits)




section \<open>Properties of the schema enforcer\<close>

lemma coerce_setitem_other:
  assumes "c \<noteq> p"
  shows "coerce e schema (setitem df p xs) c = coerce e schema df c"
proof -
  have g: "getitem (setitem df p xs) c = getitem df c"
    using assms by (rule getitem_setitem_other)
  show ?thesis unfolding coerce_def g by (rule refl)
qed

lemma enforce_loop_shape:
  "set cs \<subseteq> set (labels df) \<Longrightarrow>
     labels (fst (enforce_loop e schema cs df out)) = labels df
     \<and> nrows (fst (enforce_loop e schema cs df out)) = nrows df"
proof (induction cs arbitrary: df out)
  case Nil
  show ?case by simp
next
  case (Cons c cs)
  then have c: "c \<in> set (labels df)" and cs: "set cs \<subseteq> set (labels df)" by simp_all
  show ?case
  proof (cases "coerce e schema df c")
    case Skipped
    then show ?thesis using Cons.IH [OF cs] by simp
  next
    case (NoMapping t)
    then show ?thesis using Cons.IH [OF cs] by simp
  next
    case (Raised m)
    then show ?thesis by simp
  next
    case (Cast xs)
    have "set cs \<subseteq> set (labels (setitem df c xs))" using cs by (simp add: labels_setitem [OF c])
    from Cons.IH [OF this] Cast show ?thesis by (simp add: labels_setitem [OF c] nrows_setitem)
  qed
qed

lemma enforce_loop_stops:
  assumes "distinct (pre @ column # post)"
    and "\<forall>c \<in> set pre. \<forall>m. coerce e schema df c \<noteq> Raised m"
    and "coerce e schema df column = Raised msg"
  shows "\<exists>df' out'. enforce_loop e schema (pre @ column # post) df out
                      = (df', out' @ [''Error upgrading datatype : '' @ msg])
          \<and> (\<forall>c. getitem df' c =
                (if c \<in> set pre
                 then (case coerce e schema df c of Cast xs \<Rightarrow> xs | _ \<Rightarrow> getitem df c)
                 else getitem df c))"
  using assms
proof (induction pre arbitrary: df out)
  case Nil
  then show ?case by simp
next
  case (Cons p pre)
  have d: "distinct (pre @ column # post)" and pn: "p \<notin> set pre" and pc: "p \<noteq> column"
    using Cons.prems(1) by simp_all
  have nr: "\<forall>c \<in> set pre. \<forall>m. coerce e schema df c \<noteq> Raised m"
    using Cons.prems(2) by simp
  show ?case
  proof (cases "coerce e schema df p")
    case Skipped
    obtain df' out' where
      r: "enforce_loop e schema (pre @ column # post) df out
            = (df', out' @ [''Error upgrading datatype : '' @ msg])"
      and g: "\<forall>c. getitem df' c =
                (if c \<in> set pre
                 then (case coerce e schema df c of Cast xs \<Rightarrow> xs | _ \<Rightarrow> getitem df c)
                 else getitem df c)"
      using Cons.IH [OF d nr Cons.prems(3), of out] by blast
    have "enforce_loop e schema ((p # pre) @ column # post) df out
            = (df', out' @ [''Error upgrading datatype : '' @ msg])"
      using Skipped r by simp
    moreover have "\<forall>c. getitem df' c =
                (if c \<in> set (p # pre)
                 then (case coerce e schema df c of Cast xs \<Rightarrow> xs | _ \<Rightarrow> getitem df c)
                 else getitem df c)"
      using g pn Skipped by auto
    ultimately show ?thesis by blast
  next
    case (NoMapping t)
    obtain df' out' where
      r: "enforce_loop e schema (pre @ column # post) df
            (out @ [''No mapping for BigQuery type '' @ [CHR 0x27] @ t @ [CHR 0x27]
                    @ '' for column '' @ [CHR 0x27] @ p @ [CHR 0x27]])
            = (df', out' @ [''Error upgrading datatype : '' @ msg])"
      and g: "\<forall>c. getitem df' c =
                (if c \<in> set pre
                 then (case coerce e schema df c of Cast xs \<Rightarrow> xs | _ \<Rightarrow> getitem df c)
                 else getitem df c)"
      using Cons.IH [OF d nr Cons.prems(3)] by blast
    have "enforce_loop e schema ((p # pre) @ column # post) df out
            = (df', out' @ [''Error upgrading datatype : '' @ msg])"
      using NoMapping r by simp
    moreover have "\<forall>c. getitem df' c =
                (if c \<in> set (p # pre)
                 then (case coerce e schema df c of Cast xs \<Rightarrow> xs | _ \<Rightarrow> getitem df c)
                 else getitem df c)"
      using g pn NoMapping by auto
    ultimately show ?thesis by blast
  next
    case (Raised m)
    then show ?thesis using Cons.prems(2) by simp
  next
    case (Cast xs)
    let ?df = "setitem df p xs"
    have nr': "\<forall>c \<in> set pre. \<forall>m. coerce e schema ?df c \<noteq> Raised m"
    proof (intro ballI allI)
      fix c m assume c: "c \<in> set pre"
      then have "c \<noteq> p" using pn by blast
      then show "coerce e schema ?df c \<noteq> Raised m"
        using nr c by (simp add: coerce_setitem_other)
    qed
    have cr': "coerce e schema ?df column = Raised msg"
      using Cons.prems(3) pc by (simp add: coerce_setitem_other)
    obtain df' out' where
      r: "enforce_loop e schema (pre @ column # post) ?df out
            = (df', out' @ [''Error upgrading datatype : '' @ msg])"
      and g: "\<forall>c. getitem df' c =
                (if c \<in> set pre
                 then (case coerce e schema ?df c of Cast xs \<Rightarrow> xs | _ \<Rightarrow> getitem ?df c)
                 else getitem ?df c)"
      using Cons.IH [OF d nr' cr', of out] by blast
    have "enforce_loop e schema ((p # pre) @ column # post) df out
            = (df', out' @ [''Error upgrading datatype : '' @ msg])"
      using Cast r by simp
    moreover have "\<forall>c. getitem df' c =
                (if c \<in> set (p # pre)
                 then (case coerce e schema df c of Cast xs \<Rightarrow> xs | _ \<Rightarrow> getitem df c)
                 else getitem df c)"
    proof
      fix c
      show "getitem df' c =
                (if c \<in> set (p # pre)
                 then (case coerce e schema df c of Cast xs \<Rightarrow> xs | _ \<Rightarrow> getitem df c)
                 else getitem df c)"
      proof (cases "c = p")
        case True
        then show ?thesis using g pn Cast by (simp add: getitem_setitem_same)
      next
        case False
        then have g1: "getitem ?df c = getitem df c" by (rule getitem_setitem_other)
        from False have c1: "coerce e schema ?df c = coerce e schema df c"
          by (rule coerce_setitem_other)
        have "getitem df' c =
                (if c \<in> set pre
                 then (case coerce e schema ?df c of Cast xs \<Rightarrow> xs | _ \<Rightarrow> getitem ?df c)
                 else getitem ?df c)"
          using g by blast
        then show ?thesis unfolding g1 c1 using False by simp
      qed
    qed
    ultimately show ?thesis by blast
  qed
qed

text \<open>
  Claim C2, as stated, at a concrete batch: the table has the integer columns
  \<open>height\<close>, \<open>age\<close> and \<open>weight\<close>, the cast of \<open>age\<close> raises, and the cast of \<open>weight\<close> on its
  own would succeed; after enforcement \<open>weight\<close> is still the text it was.
\<close>

theorem enforcement_skips_later_columns:
  "coerce example_env
      (existing_schema [(''height'', ''INTEGER''), (''age'', ''INTEGER''), (''weight'', ''INTEGER'')])
      example_people ''weight'' = Cast [SInt 30]
   \<and> schema_enforcement example_env example_people ''p.d.people'' =
       Some (\<lparr>nrows = 1, cols = [(''height'', [SInt 30]), (''age'', [SStr ''thirty'']),
                                 (''weight'', [SStr ''30''])]\<rparr>,
             [''Table already exist. Handling schema type mismatch.'',
              ''Error upgrading datatype : invalid literal''])"
  by code_simp

text \<open>
  Claim C2, amended. When the table exists and the cast of one column raises while the
  casts of the columns before it do not, the failure is caught and reported in the last
  printed line and the batch is returned with the same labels and rows: each column
  before the failing one holds the result of its cast if it has one, and the failing
  column and every column after it are as they were.
\<close>

theorem enforcement_stops_at_first_failure:
  assumes "get_table e table_id = TableFound schema_fields"
    and "distinct (labels df)"
    and "labels df = pre @ column # post"
    and "\<forall>c \<in> set pre. \<forall>m. coerce e (existing_schema schema_fields) df c \<noteq> Raised m"
    and "coerce e (existing_schema schema_fields) df column = Raised msg"
  shows "\<exists>df' out. schema_enforcement e df table_id = Some (df', out)
      \<and> last out = ''Error upgrading datatype : '' @ msg
      \<and> labels df' = labels df \<and> nrows df' = nrows df
      \<and> (\<forall>c \<in> set pre. getitem df' c =
            (case coerce e (existing_schema schema_fields) df c of
               Cast xs \<Rightarrow> xs | _ \<Rightarrow> getitem df c))
      \<and> (\<forall>c \<in> set (column # post). getitem df' c = getitem df c)"
proof -
  let ?s = "existing_schema schema_fields"
  let ?out = "[''Table already exist. Handling schema type mismatch.'']"
  have d: "distinct (pre @ column # post)" using assms(2,3) by simp
  obtain df' out' where
    r: "enforce_loop e ?s (pre @ column # post) df ?out
          = (df', out' @ [''Error upgrading datatype : '' @ msg])"
    and g: "\<forall>c. getitem df' c =
              (if c \<in> set pre
               then (case coerce e ?s df c of Cast xs \<Rightarrow> xs | _ \<Rightarrow> getitem df c)
               else getitem df c)"
    using enforce_loop_stops [OF d assms(4,5), of ?out] by blast
  have se: "schema_enforcement e df table_id
              = Some (df', out' @ [''Error upgrading datatype : '' @ msg])"
    using assms(1,3) r by (simp add: schema_enforcement_def)
  have sh: "labels df' = labels df \<and> nrows df' = nrows df"
    using enforce_loop_shape [of "labels df" df e ?s ?out] r assms(3) by simp
  have before: "\<forall>c \<in> set pre. getitem df' c =
            (case coerce e ?s df c of Cast xs \<Rightarrow> xs | _ \<Rightarrow> getitem df c)"
    using g by simp
  have after: "\<forall>c \<in> set (column # post). getitem df' c = getitem df c"
  proof
    fix c assume "c \<in> set (column # post)"
    then have "c \<notin> set pre" using d by auto
    then show "getitem df' c = getitem df c" using g by simp
  qed
  show ?thesis
    apply (rule exI [where x = df'])
    apply (rule exI [where x = "out' @ [''Error upgrading datatype : '' @ msg]"])
    using se sh before after by simp
qed

theorem enforcement_stops_at_first_failure_witness:
  "get_table example_env ''p.d.people''
     = TableFound [(''height'', ''INTEGER''), (''age'', ''INTEGER''), (''weight'', ''INTEGER'')]
   \<and> distinct (labels example_people)
   \<and> labels example_people = [''height''] @ ''age'' # [''weight'']
   \<and> coerce example_env
        (existing_schema [(''height'', ''INTEGER''), (''age'', ''INTEGER''), (''weight'', ''INTEGER'')])
        example_people ''height'' = Cast [SInt 30]
   \<and> coerce example_env
        (existing_schema [(''height'', ''INTEGER''), (''age'', ''INTEGER''), (''weight'', ''INTEGER'')])
        example_people ''age'' = Raised ''invalid literal''
   \<and> (\<exists>df' out. schema_enforcement example_env example_people ''p.d.people'' = Some (df', out)
        \<and> last out = ''Error upgrading datatype : invalid literal''
        \<and> getitem df' ''height'' = [SInt 30]
        \<and> getitem df' ''age'' = [SStr ''thirty'']
        \<and> getitem df' ''weight'' = [SStr ''30''])"
proof -
  let ?s = "existing_schema [(''height'', ''INTEGER''), (''age'', ''INTEGER''), (''weight'', ''INTEGER'')]"
  have t: "get_table example_env ''p.d.people''
     = TableFound [(''height'', ''INTEGER''), (''age'', ''INTEGER''), (''weight'', ''INTEGER'')]"
    by (simp add: example_env_def example_get_table_def)
  have d: "distinct (labels example_people)"
    by (simp add: labels_def example_people_def)
  have l: "labels example_people = [''height''] @ ''age'' # [''weight'']"
    by (simp add: labels_def example_people_def)
  have h: "coerce example_env ?s example_people ''height'' = Cast [SInt 30]"
    by code_simp
  have a: "coerce example_env ?s example_people ''age'' = Raised ''invalid literal''"
    by code_simp
  have w: "getitem example_people ''weight'' = [SStr ''30'']"
    and g: "getitem example_people ''age'' = [SStr ''thirty'']"
    by (simp_all add: getitem_def example_people_def)
  have p: "\<forall>c \<in> set [''height'']. \<forall>m. coerce example_env ?s example_people c \<noteq> Raised m"
    using h by simp
  show ?thesis
    using enforcement_stops_at_first_failure [OF t d l p a] t d l h a w g by auto
qed

section \<open>Properties of the orchestrator\<close>

text \<open>
  Claim C1, as stated, at the empty top-level object: its flattening is a sequence of
  one empty record, not the empty sequence, and the invocation goes on to the append.
\<close>

theorem empty_object_is_written:
  "flattened_data example_repr (Object []) = Some [[]]
   \<and> download example_env ''b'' ''empty_20240115_103000.json'' = Some (Object [])
   \<and> write_attempted (process_json_file example_env (example_event ''empty_20240115_103000.json''))
   \<and> process_json_file example_env (example_event ''empty_20240115_103000.json'')
        \<noteq> Returned ''Empty source file: empty_20240115_103000.json.'' 200"
  by code_simp

text \<open>
  Claim C1, amended. Whenever the flattening of the downloaded document is the empty
  sequence of records, as it is for the empty top-level list and for a top-level object
  whose only key holds the empty list, the invocation returns the message
  \<open>Empty source file: <name>.\<close> with status 200 and does not reach the append.
\<close>

theorem empty_source_short_circuit:
  assumes "event ''name'' = Some file_name"
    and "event ''bucket'' = Some bucket_name"
    and "download e bucket_name file_name = Some json_data"
    and "flattened_data (repr e) json_data = Some []"
  shows "process_json_file e event = Returned (''Empty source file: '' @ file_name @ ''.'') 200
       \<and> \<not> write_attempted (process_json_file e event)
       \<and> flattened_data (repr e) (Array []) = Some []
       \<and> flattened_data (repr e) (Object [(key, Array [])]) = Some []"
  using assms by (simp add: process_json_file_def flatten_each_def)

theorem empty_source_short_circuit_witness:
  "example_event ''none_20240115_103000.json'' ''name'' = Some ''none_20240115_103000.json''
   \<and> example_event ''none_20240115_103000.json'' ''bucket'' = Some ''b''
   \<and> download example_env ''b'' ''none_20240115_103000.json'' = Some (Array [])
   \<and> flattened_data (repr example_env) (Array []) = Some []
   \<and> process_json_file example_env (example_event ''none_20240115_103000.json'')
       = Returned ''Empty source file: none_20240115_103000.json.'' 200"
  using empty_source_short_circuit
    [where event = "example_event ''none_20240115_103000.json''"
       and file_name = "''none_20240115_103000.json''" and bucket_name = "''b''"
       and e = example_env and json_data = "Array []"]
  by (simp add: example_event_def example_env_def example_download_def flatten_each_def)

end
